theory Spec2Isabelle
  imports Main "HOL-Library.Sublist"
begin

section \<open>Voice-command actions of \<open>action.py\<close>\<close>

text \<open>
  A shallow embedding of the actions defined in \<open>src/action.py\<close>: the time phrase of
  \<open>SpeakTime\<close>, \<open>VolumeControl\<close>, \<open>RepeatAfterMe\<close>, \<open>PowerCommand\<close> and the podcast
  controller \<open>playPodcast\<close> with its module-level pause and resume hooks.

  Python exceptions are values of \<open>py_error\<close>. Everything an action does to the outside
  (speaking, logging, shell commands, calls on the media player, sleeping) is appended to
  a trace held in the record \<open>world\<close>, next to the module's global variables. Text is
  \<open>string\<close>, a list of bytes: the model covers ASCII text.
\<close>

subsection \<open>Python values and exceptions\<close>

datatype py_error =
  IndexError | KeyError | TypeError | NameError | ValueError | CalledProcessError

text \<open>The subscript \<open>xs[i]\<close> on a Python list: positions \<open>0\<close> to \<open>len(xs) - 1\<close> read
  from the front, positions \<open>-len(xs)\<close> to \<open>-1\<close> read from the back, and any other
  position raises \<open>IndexError\<close>.\<close>

definition py_index :: "'a list \<Rightarrow> int \<Rightarrow> py_error + 'a" where
  "py_index xs i =
     (if 0 \<le> i \<and> i < int (length xs) then Inr (xs ! nat i)
      else if i < 0 \<and> - int (length xs) \<le> i then Inr (xs ! nat (int (length xs) + i))
      else Inl IndexError)"

subsection \<open>Strings\<close>

text \<open>\<open>old in s\<close>: the substring test.\<close>

fun contains :: "string \<Rightarrow> string \<Rightarrow> bool" where
  "contains old [] = (old = [])"
| "contains old (c # cs) = (prefix old (c # cs) \<or> contains old cs)"

text \<open>\<open>s.replace(old, new, 1)\<close>: the leftmost occurrence of \<open>old\<close> is replaced; an empty
  \<open>old\<close> occurs at position 0.\<close>

fun replace_first :: "string \<Rightarrow> string \<Rightarrow> string \<Rightarrow> string" where
  "replace_first old new [] = (if old = [] then new else [])"
| "replace_first old new (c # cs) =
     (if prefix old (c # cs) then new @ drop (length old) (c # cs)
      else c # replace_first old new cs)"

text \<open>\<open>s.lower()\<close> on ASCII text: the letters A to Z are mapped, every other byte is kept.\<close>

definition lower_char :: "char \<Rightarrow> char" where
  "lower_char c =
     (case map_of (zip ''ABCDEFGHIJKLMNOPQRSTUVWXYZ'' ''abcdefghijklmnopqrstuvwxyz'') c of
        None \<Rightarrow> c
      | Some d \<Rightarrow> d)"

definition lower :: "string \<Rightarrow> string" where
  "lower s = map lower_char s"

text \<open>\<open>s.strip()\<close>. For \<open>str\<close> the ASCII whitespace is tab, line feed, vertical tab, form
  feed, carriage return, the separators 0x1C to 0x1F and the space; for \<open>bytes\<close> (the output
  of a shell command) the separators 0x1C to 0x1F are not whitespace.\<close>

definition bytes_space :: "char \<Rightarrow> bool" where
  "bytes_space c = (c \<in> set [CHR 0x09, CHR 0x0A, CHR 0x0B, CHR 0x0C, CHR 0x0D, CHR 0x20])"

definition str_space :: "char \<Rightarrow> bool" where
  "str_space c = (bytes_space c \<or> c \<in> set [CHR 0x1C, CHR 0x1D, CHR 0x1E, CHR 0x1F])"

definition strip_by :: "(char \<Rightarrow> bool) \<Rightarrow> string \<Rightarrow> string" where
  "strip_by sp s = rev (dropWhile sp (rev (dropWhile sp s)))"

definition strip :: "string \<Rightarrow> string" where
  "strip s = strip_by str_space s"

definition bytes_strip :: "string \<Rightarrow> string" where
  "bytes_strip s = strip_by bytes_space s"

text \<open>\<open>str(n)\<close> and \<open>'%d' % n\<close> for an integer.\<close>

fun str_nat :: "nat \<Rightarrow> string" where
  "str_nat n =
     (if n < 10 then [''0123456789'' ! n]
      else str_nat (n div 10) @ [''0123456789'' ! (n mod 10)])"

definition str_int :: "int \<Rightarrow> string" where
  "str_int i = (if i < 0 then CHR ''-'' # str_nat (nat (- i)) else str_nat (nat i))"

text \<open>\<open>str(b)\<close> and \<open>'%s' % b\<close> for a \<open>bytes\<close> value, which is its \<open>repr\<close>: the letter b,
  then the bytes between quotes. The quote is the single quote, unless the bytes hold a
  single quote and no double quote. The quote and the backslash are escaped with a
  backslash; tab, line feed and carriage return are written \<open>\t\<close>, \<open>\n\<close>, \<open>\r\<close>; any other
  byte below 0x20 or from 0x7F on is written \<open>\xNN\<close> with two lower-case hex digits.\<close>

definition bytes_quote :: "string \<Rightarrow> char" where
  "bytes_quote b = (if CHR 0x27 \<in> set b \<and> CHR 0x22 \<notin> set b then CHR 0x22 else CHR 0x27)"

definition repr_byte :: "char \<Rightarrow> char \<Rightarrow> string" where
  "repr_byte quote c =
     (if c = quote \<or> c = CHR 0x5C then [CHR 0x5C, c]
      else if c = CHR 0x09 then [CHR 0x5C, CHR ''t'']
      else if c = CHR 0x0A then [CHR 0x5C, CHR ''n'']
      else if c = CHR 0x0D then [CHR 0x5C, CHR ''r'']
      else if (of_char c :: nat) < 32 \<or> 127 \<le> (of_char c :: nat) then
        [CHR 0x5C, CHR ''x'', ''0123456789abcdef'' ! (of_char c div 16),
         ''0123456789abcdef'' ! (of_char c mod 16)]
      else [c])"

definition bytes_repr :: "string \<Rightarrow> string" where
  "bytes_repr b =
     CHR ''b'' # bytes_quote b # concat (map (repr_byte (bytes_quote b)) b) @ [bytes_quote b]"

text \<open>\<open>int(s)\<close> in base ten: surrounding whitespace, one optional sign, then digits, where
  single underscores may stand between digits. \<open>None\<close> is the \<open>ValueError\<close>. The limit
  that newer interpreters put on the number of digits is not modelled.\<close>

definition digit_val :: "char \<Rightarrow> nat option" where
  "digit_val c = map_of (zip ''0123456789'' [0, 1, 2, 3, 4, 5, 6, 7, 8, 9]) c"

fun parse_digits :: "nat \<Rightarrow> bool \<Rightarrow> string \<Rightarrow> nat option" where
  "parse_digits acc after_digit [] = (if after_digit then Some acc else None)"
| "parse_digits acc after_digit (c # cs) =
     (case digit_val c of
        Some d \<Rightarrow> parse_digits (10 * acc + d) True cs
      | None \<Rightarrow>
          if c = CHR ''_'' \<and> after_digit then parse_digits acc False cs else None)"

definition py_int :: "string \<Rightarrow> int option" where
  "py_int s =
     (case bytes_strip s of
        [] \<Rightarrow> None
      | c # cs \<Rightarrow>
          if c = CHR ''-'' then map_option (\<lambda>n. - int n) (parse_digits 0 False cs)
          else if c = CHR ''+'' then map_option int (parse_digits 0 False cs)
          else map_option int (parse_digits 0 False (c # cs)))"

subsection \<open>\<open>SpeakTime.to_str\<close>\<close>

definition HRS_TEXT :: "string list" where
  "HRS_TEXT = [''midnight'', ''one'', ''two'', ''three'', ''four'', ''five'', ''six'',
               ''seven'', ''eight'', ''nine'', ''ten'', ''eleven'', ''twelve'']"

definition MINS_TEXT :: "string list" where
  "MINS_TEXT = [''five'', ''ten'', ''quarter'', ''twenty'', ''twenty-five'', ''half'']"

text \<open>The argument is the pair \<open>dt.hour\<close>, \<open>dt.minute\<close> of the datetime.\<close>

definition to_str :: "int \<Rightarrow> int \<Rightarrow> py_error + string" where
  "to_str dt_hour minute =
     (let minute_rounded0 = (minute + 2) div 5;
          minute_is_inverted = (minute_rounded0 > 6);
          minute_rounded = (if minute_is_inverted then 12 - minute_rounded0 else minute_rounded0);
          hour1 = (if minute_is_inverted then (dt_hour + 1) mod 24 else dt_hour);
          hour = (if hour1 > 12 then hour1 - 12 else hour1)
      in if minute_rounded = 0 then
           (if hour = 0 then Inr ''It is midnight.''
            else case py_index HRS_TEXT hour of
                   Inl e \<Rightarrow> Inl e
                 | Inr h \<Rightarrow> Inr (''It is '' @ h @ '' o'clock.''))
         else
           (case py_index MINS_TEXT (minute_rounded - 1) of
              Inl e \<Rightarrow> Inl e
            | Inr m \<Rightarrow>
                (case py_index HRS_TEXT hour of
                   Inl e \<Rightarrow> Inl e
                 | Inr h \<Rightarrow>
                     if minute_is_inverted then Inr (''It is '' @ m @ '' to '' @ h @ ''.'')
                     else Inr (''It is '' @ m @ '' past '' @ h @ ''.''))))"

text \<open>The phrase as the specification words it: the minute is rounded to units of five
  with \<open>(minute + 2) div 5\<close>; a rounded value above 6 is replaced by \<open>12 - rounded\<close> and
  advances the hour by one modulo 24; an hour above 12 has 12 subtracted; the phrase is
  midnight when the resulting hour and the rounded minute are both 0, the o'clock phrase
  when only the rounded minute is 0, the "to" phrase in the inverted case and the "past"
  phrase otherwise.\<close>

fun hour_word :: "int \<Rightarrow> string" where
  "hour_word h =
     (if h = 0 then ''midnight'' else if h = 1 then ''one'' else if h = 2 then ''two''
      else if h = 3 then ''three'' else if h = 4 then ''four'' else if h = 5 then ''five''
      else if h = 6 then ''six'' else if h = 7 then ''seven'' else if h = 8 then ''eight''
      else if h = 9 then ''nine'' else if h = 10 then ''ten'' else if h = 11 then ''eleven''
      else ''twelve'')"

fun unit_word :: "int \<Rightarrow> string" where
  "unit_word u =
     (if u = 1 then ''five'' else if u = 2 then ''ten'' else if u = 3 then ''quarter''
      else if u = 4 then ''twenty'' else if u = 5 then ''twenty-five'' else ''half'')"

definition spec_rounded :: "int \<Rightarrow> int" where
  "spec_rounded minute = (minute + 2) div 5"

definition spec_inverted :: "int \<Rightarrow> bool" where
  "spec_inverted minute = (spec_rounded minute > 6)"

definition spec_unit :: "int \<Rightarrow> int" where
  "spec_unit minute =
     (if spec_inverted minute then 12 - spec_rounded minute else spec_rounded minute)"

definition spec_hour :: "int \<Rightarrow> int \<Rightarrow> int" where
  "spec_hour hour minute =
     (let h = (if spec_inverted minute then (hour + 1) mod 24 else hour)
      in if h > 12 then h - 12 else h)"

definition spec_phrase :: "int \<Rightarrow> int \<Rightarrow> string" where
  "spec_phrase hour minute =
     (if spec_unit minute = 0 \<and> spec_hour hour minute = 0 then ''It is midnight.''
      else if spec_unit minute = 0 then
        ''It is '' @ hour_word (spec_hour hour minute) @ '' o'clock.''
      else if spec_inverted minute then
        ''It is '' @ unit_word (spec_unit minute) @ '' to '' @ hour_word (spec_hour hour minute) @ ''.''
      else
        ''It is '' @ unit_word (spec_unit minute) @ '' past '' @ hour_word (spec_hour hour minute) @ ''.'')"

subsection \<open>The world: module globals and the trace of effects\<close>

datatype log_level = Info | Error | Exception

datatype player_call = Media_new string | Set_media string | Play | Pause | Stop | Get_state

datatype outcome = Returned | Raised py_error

text \<open>
  \<open>podcastState\<close>, \<open>podcastPlayer\<close>, \<open>podcast_url\<close> and \<open>podcast\<close> are the module's global
  names. \<open>podcastState = None\<close> and \<open>podcast = None\<close> say that the name is not bound (reading
  it raises \<open>NameError\<close>); \<open>podcastPlayer\<close> says whether that name is bound to the player;
  \<open>podcast_url = None\<close> is Python's \<open>None\<close>. No statement of the module binds \<open>podcast\<close>.
  The other fields are the effects so far, oldest first.
\<close>

record world =
  podcastState :: "string option"
  podcastPlayer :: bool
  podcast_url :: "string option"
  podcast :: "string option"
  said :: "string list"
  logged :: "(log_level \<times> string) list"
  shell_calls :: "string list"
  player_calls :: "player_call list"
  slept :: "nat list"

definition say :: "string \<Rightarrow> world \<Rightarrow> world" where
  "say words w = w\<lparr>said := said w @ [words]\<rparr>"

definition logging :: "log_level \<Rightarrow> string \<Rightarrow> world \<Rightarrow> world" where
  "logging lvl msg w = w\<lparr>logged := logged w @ [(lvl, msg)]\<rparr>"

definition player :: "player_call \<Rightarrow> world \<Rightarrow> world" where
  "player c w = w\<lparr>player_calls := player_calls w @ [c]\<rparr>"

definition sleep :: "nat \<Rightarrow> world \<Rightarrow> world" where
  "sleep secs w = w\<lparr>slept := slept w @ [secs]\<rparr>"

subsection \<open>Shell commands\<close>

text \<open>The operating system is a function from a command line to its exit status and its
  output. \<open>subprocess.check_output\<close> raises \<open>CalledProcessError\<close> on a non-zero exit
  status; \<open>subprocess.call\<close> returns the exit status and raises nothing for it.\<close>

type_synonym shell = "string \<Rightarrow> int \<times> string"

definition check_output :: "shell \<Rightarrow> string \<Rightarrow> world \<Rightarrow> (py_error + string) \<times> world" where
  "check_output sh cmd w =
     (let w' = w\<lparr>shell_calls := shell_calls w @ [cmd]\<rparr>
      in if fst (sh cmd) \<noteq> 0 then (Inl CalledProcessError, w') else (Inr (snd (sh cmd)), w'))"

definition call :: "shell \<Rightarrow> string \<Rightarrow> world \<Rightarrow> int \<times> world" where
  "call sh cmd w = (fst (sh cmd), w\<lparr>shell_calls := shell_calls w @ [cmd]\<rparr>)"

subsection \<open>\<open>VolumeControl\<close>\<close>

definition GET_VOLUME :: string where
  \<open>GET_VOLUME =
     ''amixer get Master | grep "Front Left:" | sed "s/.*'' @ [CHR 0x5C] @ ''['' @ [CHR 0x5C]
       @ ''([0-9]'' @ [CHR 0x5C] @ ''+'' @ [CHR 0x5C] @ '')%'' @ [CHR 0x5C] @ ''].*/''
       @ [CHR 0x5C] @ ''1/"''\<close>

definition SET_VOLUME :: "int \<Rightarrow> string" where
  "SET_VOLUME vol = ''amixer -q set Master '' @ str_int vol @ ''%''"

text \<open>\<open>check_output\<close> stands before the \<open>try\<close>; the handler catches \<open>ValueError\<close> and
  \<open>CalledProcessError\<close> raised inside the \<open>try\<close>, where only \<open>int(res)\<close> can raise.
  \<open>res\<close> is a \<open>bytes\<close> value, so the log line formats it with \<open>bytes_repr\<close>. The
  translation function \<open>_\<close> is the identity.\<close>

definition VolumeControl_run :: "int \<Rightarrow> shell \<Rightarrow> string \<Rightarrow> world \<Rightarrow> outcome \<times> world" where
  "VolumeControl_run change sh voice_command w =
     (case check_output sh GET_VOLUME w of
        (Inl e, w1) \<Rightarrow> (Raised e, w1)
      | (Inr out, w1) \<Rightarrow>
          (let res = bytes_strip out;
               w2 = logging Info (''volume: '' @ bytes_repr res) w1
           in case py_int res of
                None \<Rightarrow> (Returned, logging Exception ''Error using amixer to adjust volume.'' w2)
              | Some v \<Rightarrow>
                  (let vol = max 0 (min 100 (v + change));
                       w3 = snd (call sh (SET_VOLUME vol) w2)
                   in (Returned, say (''Volume at '' @ str_int vol @ '' %.'') w3))))"

subsection \<open>\<open>RepeatAfterMe\<close> and \<open>PowerCommand\<close>\<close>

definition RepeatAfterMe_run :: "string \<Rightarrow> string \<Rightarrow> world \<Rightarrow> outcome \<times> world" where
  "RepeatAfterMe_run keyword voice_command w =
     (let to_repeat = replace_first keyword [] voice_command
      in (Returned, say to_repeat w))"

definition PowerCommand_run :: "string \<Rightarrow> shell \<Rightarrow> string \<Rightarrow> world \<Rightarrow> outcome \<times> world" where
  "PowerCommand_run command sh voice_command w =
     (if command = ''shutdown'' then
        (Returned, snd (call sh ''sudo shutdown now'' (say ''Shutting down, goodbye'' w)))
      else if command = ''reboot'' then
        (Returned, snd (call sh ''sudo shutdown -r now'' (say ''Rebooting'' w)))
      else
        (Returned, say ''Sorry I didn't identify that command''
                     (logging Error ''Error identifying power command.'' w)))"

subsection \<open>\<open>playPodcast\<close>\<close>

definition set_state :: "string \<Rightarrow> world \<Rightarrow> world" where
  "set_state new_state w =
     (logging Info (''setting podcast state '' @ new_state) w)\<lparr>podcastState := Some new_state\<rparr>"

text \<open>The constructor binds the player and sets the state; \<open>start\<close> is the world before
  the module has done anything.\<close>

definition start :: world where
  "start = \<lparr>podcastState = None, podcastPlayer = False, podcast_url = None, podcast = None,
             said = [], logged = [], shell_calls = [], player_calls = [], slept = []\<rparr>"

definition init :: "world \<Rightarrow> world" where
  "init w = set_state ''stopped'' (w\<lparr>podcastPlayer := True\<rparr>)"

definition urls :: "(string \<times> string) list" where
  "urls =
     [(''friday night comedy'', ''http://www.bbc.co.uk/programmes/p02pc9pj/episodes/downloads.rss''),
      (''tech news today'', ''http://feeds.twit.tv/tnt.xml''),
      (''twig'', ''http://feeds.twit.tv/twig.xml''),
      (''this week in tech'', ''http://feeds.twit.tv/twit.xml''),
      (''theory of everything'', ''https://www.npr.org/rss/podcast.php?id=510061''),
      (''this american life'', ''http://feed.thisamericanlife.org/talpodcast''),
      (''android authority'', ''http://androidauthority.libsyn.com/rss'')]"

definition get_url :: "string \<Rightarrow> py_error + string" where
  "get_url podcast_name =
     (case map_of urls podcast_name of None \<Rightarrow> Inl KeyError | Some u \<Rightarrow> Inr u)"

text \<open>A call on the global \<open>podcastPlayer\<close>: \<open>NameError\<close> when the name is not bound.\<close>

definition on_player :: "player_call \<Rightarrow> world \<Rightarrow> py_error + world" where
  "on_player c w = (if podcastPlayer w then Inr (player c w) else Inl NameError)"

definition stop :: "world \<Rightarrow> outcome \<times> world" where
  "stop w =
     (case on_player Stop w of
        Inl e \<Rightarrow> (Raised e, w)
      | Inr w1 \<Rightarrow> (Returned, set_state ''stopped'' w1))"

text \<open>A feed is the list of its entries, an entry the list of the \<open>href\<close>s of its links.
  The loop over the links keeps the first \<open>href\<close> that contains \<open>.mp3\<close>.\<close>

type_synonym entry = "string list"

fun first_mp3 :: "string list \<Rightarrow> string option" where
  "first_mp3 [] = None"
| "first_mp3 (href # links) =
     (if contains ''.mp3'' href then Some href else first_mp3 links)"

text \<open>\<open>random.randint(a, b)\<close> returns an integer \<open>N\<close> with \<open>a \<le> N \<le> b\<close>.\<close>

definition randint :: "int \<Rightarrow> int \<Rightarrow> int set" where
  "randint a b = {a..b}"

definition playing :: "int set" where
  "playing = {1, 2, 3, 4}"

text \<open>\<open>voice_command\<close> after the first statement of \<open>run\<close>.\<close>

definition command_of :: "string \<Rightarrow> string \<Rightarrow> string" where
  "command_of keyword voice_command = strip (replace_first keyword [] (lower voice_command))"

text \<open>The part of \<open>run\<close> from \<open>media_new\<close> on. \<open>engine\<close> is the state code that
  \<open>podcastPlayer.get_state()\<close> returns after the sleep.\<close>

definition start_playback :: "int \<Rightarrow> string \<Rightarrow> world \<Rightarrow> outcome \<times> world" where
  "start_playback engine url w =
     (let w1 = player (Media_new url) w in
      case on_player (Set_media url) w1 of
        Inl e \<Rightarrow> (Raised e, w1)
      | Inr w2 \<Rightarrow>
          (let w3 = sleep 1 (player Play w2);
               w4 = player Get_state w3;
               w5 = set_state ''starting'' w4
           in if engine \<notin> playing then
                (let w6 = logging Info (''error playing podcast '' @ url) w5
                 in case podcast w6 of
                      None \<Rightarrow> (Raised NameError, w6)
                    | Some name \<Rightarrow>
                        (Returned,
                         set_state ''playing''
                           (set_state ''stopped'' (say (''Sorry error playing '' @ name) w6))))
              else (Returned, set_state ''playing'' w5)))"

text \<open>The part of \<open>run\<close> after the commands stop, off, pause and resume. \<open>feed\<close> maps a
  feed URL to the entries that \<open>feedparser.parse\<close> returns for it; \<open>pick\<close> is the value
  that \<open>random.randint(0, number_of_podcasts)\<close> returns, an element of
  \<open>randint 0 number_of_podcasts\<close>.\<close>

definition play_named ::
  "(string \<Rightarrow> entry list) \<Rightarrow> int \<Rightarrow> int \<Rightarrow> string \<Rightarrow> world \<Rightarrow> outcome \<times> world" where
  "play_named feed pick engine voice_command w =
     (let random_podcast = contains ''random'' voice_command;
          voice_command = (if random_podcast then strip (replace_first ''random'' [] voice_command)
                           else voice_command);
          w1 = (set_state ''stopped'' w)\<lparr>podcast_url := None\<rparr>;
          w2 = logging Info (''looking for podcast: '' @ voice_command) w1
      in case get_url voice_command of
           Inl e \<Rightarrow> (Returned, say ''Sorry podcast not found'' w2)
         | Inr feedUrl \<Rightarrow>
             (let w3 = logging Info (''podcast feed: '' @ feedUrl) w2;
                  entries = feed feedUrl;
                  number_of_podcasts = int (length entries);
                  w4 = (if random_podcast
                        then logging Info (''podcast feed length: '' @ str_int number_of_podcasts) w3
                        else w3);
                  podcast_number = (if random_podcast then pick else 0)
              in case py_index entries podcast_number of
                   Inl e \<Rightarrow> (Raised e, w4)
                 | Inr links \<Rightarrow>
                     (let w5 = w4\<lparr>podcast_url := first_mp3 links\<rparr>
                      in case podcast_url w5 of
                           None \<Rightarrow> (Raised TypeError, w5)
                         | Some url \<Rightarrow>
                             start_playback engine url (logging Info (''podcast url: '' @ url) w5))))"

definition playPodcast_run ::
  "string \<Rightarrow> (string \<Rightarrow> entry list) \<Rightarrow> int \<Rightarrow> int \<Rightarrow> string \<Rightarrow> world \<Rightarrow> outcome \<times> world" where
  "playPodcast_run keyword feed pick engine voice_command w =
     (let voice_command = command_of keyword voice_command;
          w1 = logging Info (''podcast command:'' @ voice_command) w
      in if voice_command = ''stop'' \<or> voice_command = ''off'' then stop w1
         else if voice_command = ''pause'' then
           (Returned, set_state ''paused'' (logging Info ''podcast pausing'' w1))
         else if voice_command = ''resume'' then
           (let w2 = logging Info ''podcast resuming'' w1
            in case on_player Play w2 of
                 Inl e \<Rightarrow> (Returned, logging Info ''error resuming'' w2)
               | Inr w3 \<Rightarrow> (Returned, set_state ''playing'' w3))
         else play_named feed pick engine voice_command w1)"

text \<open>The module-level hooks \<open>playPodcast.pause\<close> and \<open>playPodcast.resume\<close>;
  \<open>get_state\<close> reads the global \<open>podcastState\<close>.\<close>

definition get_state :: "world \<Rightarrow> py_error + string" where
  "get_state w = (case podcastState w of None \<Rightarrow> Inl NameError | Some s \<Rightarrow> Inr s)"

definition pause :: "world \<Rightarrow> outcome \<times> world" where
  "pause w =
     (case get_state w of
        Inl e \<Rightarrow> (Raised e, w)
      | Inr state \<Rightarrow>
          (let w1 = logging Info (''pausing podcast state is '' @ state) w
           in if state = ''playing'' then
                (case on_player Pause w1 of
                   Inl e \<Rightarrow> (Returned, w1)
                 | Inr w2 \<Rightarrow> (Returned, w2))
              else (Returned, w1)))"

definition resume :: "world \<Rightarrow> outcome \<times> world" where
  "resume w =
     (case get_state w of
        Inl e \<Rightarrow> (Raised e, w)
      | Inr state \<Rightarrow>
          (let w1 = logging Info (''resume podcast state is '' @ state) w
           in if state = ''playing'' then
                (case on_player Play w1 of
                   Inl e \<Rightarrow> (Raised e, w1)
                 | Inr w2 \<Rightarrow> (Returned, w2))
              else (Returned, w1)))"

definition pauseActors :: "world \<Rightarrow> outcome \<times> world" where
  "pauseActors w = pause w"

definition resumeActors :: "world \<Rightarrow> outcome \<times> world" where
  "resumeActors w = resume w"

section \<open>Properties\<close>

subsection \<open>The time phrase\<close>

lemma HRS_TEXT_index: "0 \<le> h \<Longrightarrow> h \<le> 12 \<Longrightarrow> py_index HRS_TEXT h = Inr (hour_word h)"
proof -
  assume "0 \<le> h" "h \<le> 12"
  then have "h = 0 \<or> h = 1 \<or> h = 2 \<or> h = 3 \<or> h = 4 \<or> h = 5 \<or> h = 6 \<or> h = 7 \<or> h = 8
    \<or> h = 9 \<or> h = 10 \<or> h = 11 \<or> h = 12" by arith
  then show ?thesis
    by (elim disjE) (simp_all add: py_index_def HRS_TEXT_def)
qed

lemma MINS_TEXT_index: "1 \<le> u \<Longrightarrow> u \<le> 6 \<Longrightarrow> py_index MINS_TEXT (u - 1) = Inr (unit_word u)"
proof -
  assume "1 \<le> u" "u \<le> 6"
  then have "u = 1 \<or> u = 2 \<or> u = 3 \<or> u = 4 \<or> u = 5 \<or> u = 6" by arith
  then show ?thesis
    by (elim disjE) (simp_all add: py_index_def MINS_TEXT_def)
qed

lemma spec_hour_range:
  "0 \<le> hour \<Longrightarrow> hour < 24 \<Longrightarrow> 0 \<le> spec_hour hour minute \<and> spec_hour hour minute \<le> 12"
  unfolding spec_hour_def Let_def by (simp; presburger)

lemma spec_unit_range:
  "0 \<le> minute \<Longrightarrow> minute < 60 \<Longrightarrow> 0 \<le> spec_unit minute \<and> spec_unit minute \<le> 6"
  unfolding spec_unit_def spec_inverted_def spec_rounded_def by (simp; presburger)

lemma to_str_unfold:
  "to_str hour minute =
     (if spec_unit minute = 0 then
        (if spec_hour hour minute = 0 then Inr ''It is midnight.''
         else case py_index HRS_TEXT (spec_hour hour minute) of
                Inl e \<Rightarrow> Inl e
              | Inr h \<Rightarrow> Inr (''It is '' @ h @ '' o'clock.''))
      else
        (case py_index MINS_TEXT (spec_unit minute - 1) of
           Inl e \<Rightarrow> Inl e
         | Inr m \<Rightarrow>
             (case py_index HRS_TEXT (spec_hour hour minute) of
                Inl e \<Rightarrow> Inl e
              | Inr h \<Rightarrow>
                  if spec_inverted minute then Inr (''It is '' @ m @ '' to '' @ h @ ''.'')
                  else Inr (''It is '' @ m @ '' past '' @ h @ ''.''))))"
  unfolding to_str_def spec_unit_def spec_hour_def spec_inverted_def spec_rounded_def Let_def
  by simp

lemma to_str_spec_phrase:
  assumes "0 \<le> hour" "hour < 24" "0 \<le> minute" "minute < 60"
  shows "to_str hour minute = Inr (spec_phrase hour minute)"
proof -
  have h: "py_index HRS_TEXT (spec_hour hour minute) = Inr (hour_word (spec_hour hour minute))"
    using spec_hour_range [OF assms(1,2)] by (intro HRS_TEXT_index) auto
  show ?thesis
  proof (cases "spec_unit minute = 0")
    case True
    then show ?thesis by (simp add: to_str_unfold h spec_phrase_def del: hour_word.simps)
  next
    case False
    then have "1 \<le> spec_unit minute" "spec_unit minute \<le> 6"
      using spec_unit_range [OF assms(3,4)] by auto
    then have m: "py_index MINS_TEXT (spec_unit minute - 1) = Inr (unit_word (spec_unit minute))"
      by (rule MINS_TEXT_index)
    from False show ?thesis
      by (simp add: to_str_unfold h m spec_phrase_def del: hour_word.simps unit_word.simps)
  qed
qed

lemma phrase_not_midnight:
  "''It is '' @ hour_word h @ '' o'clock.'' \<noteq> ''It is midnight.''"
  "''It is '' @ unit_word u @ '' to '' @ hour_word h @ ''.'' \<noteq> ''It is midnight.''"
  "''It is '' @ unit_word u @ '' past '' @ hour_word h @ ''.'' \<noteq> ''It is midnight.''"
  by auto

lemma spec_phrase_midnight:
  "(spec_phrase hour minute = ''It is midnight.'') =
     (spec_hour hour minute = 0 \<and> spec_unit minute = 0)"
  unfolding spec_phrase_def using phrase_not_midnight
  by (simp del: hour_word.simps unit_word.simps)

text \<open>
  C2, as the code has it. For every hour 0 to 23 and minute 0 to 59, \<open>to_str\<close> returns a
  phrase (no index is out of range) and the phrase is the one of the rounding rule:
  \<open>rounded = (minute + 2) div 5\<close>; if \<open>rounded > 6\<close> the unit is \<open>12 - rounded\<close> and the hour
  advances by one modulo 24; an hour above 12 has 12 subtracted; the phrase is
  "It is midnight." exactly when the resulting hour and the unit are both 0, the o'clock
  phrase when only the unit is 0 (also in the inverted case, where minutes 58 and 59 give
  unit 0), the "to" phrase in the inverted case with a non-zero unit, the "past" phrase
  otherwise. In particular (4, 58) gives "It is five o'clock.", (4, 55) gives
  "It is five to five.", (0, 0) gives "It is midnight." and (6, 0) gives
  "It is six o'clock.".
\<close>

theorem to_str_rounding_rule:
  assumes "0 \<le> hour" "hour < 24" "0 \<le> minute" "minute < 60"
  shows "to_str hour minute = Inr (spec_phrase hour minute)
       \<and> ((to_str hour minute = Inr ''It is midnight.'') =
            (spec_hour hour minute = 0 \<and> spec_unit minute = 0))
       \<and> to_str 4 58 = Inr ''It is five o'clock.''
       \<and> to_str 4 55 = Inr ''It is five to five.''
       \<and> to_str 0 0 = Inr ''It is midnight.''
       \<and> to_str 6 0 = Inr ''It is six o'clock.''"
proof -
  have a: "to_str hour minute = Inr (spec_phrase hour minute)"
    using assms by (rule to_str_spec_phrase)
  have b: "(to_str hour minute = Inr ''It is midnight.'') =
            (spec_hour hour minute = 0 \<and> spec_unit minute = 0)"
    by (simp add: a spec_phrase_midnight)
  have c: "to_str 4 58 = Inr ''It is five o'clock.''"
    by (simp add: to_str_def py_index_def HRS_TEXT_def MINS_TEXT_def)
  have d: "to_str 4 55 = Inr ''It is five to five.''"
    by (simp add: to_str_def py_index_def HRS_TEXT_def MINS_TEXT_def)
  have e: "to_str 0 0 = Inr ''It is midnight.''"
    by (simp add: to_str_def py_index_def HRS_TEXT_def MINS_TEXT_def)
  have f: "to_str 6 0 = Inr ''It is six o'clock.''"
    by (simp add: to_str_def py_index_def HRS_TEXT_def MINS_TEXT_def)
  from a b c d e f show ?thesis by blast
qed

theorem to_str_rounding_rule_witness:
  "to_str 23 59 = Inr ''It is midnight.'' \<and> spec_hour 23 59 = 0 \<and> spec_unit 59 = 0"
proof -
  have "to_str 23 59 = Inr (spec_phrase 23 59)"
    using to_str_rounding_rule [of 23 59] by simp
  moreover have "spec_hour 23 59 = 0" "spec_unit 59 = 0"
    by (simp_all add: spec_hour_def spec_unit_def spec_inverted_def spec_rounded_def)
  ultimately show ?thesis by (simp add: spec_phrase_def)
qed

text \<open>The example of the claim as it is written: at 4:58 the code does not say
  "It is five to five.".\<close>

theorem to_str_4_58_counterexample:
  "to_str 4 58 \<noteq> Inr ''It is five to five.''"
  by (simp add: to_str_def py_index_def HRS_TEXT_def MINS_TEXT_def)

subsection \<open>Repeating and power commands\<close>

lemma replace_first_absent:
  "\<not> (\<exists>p s. vc = p @ old @ s) \<Longrightarrow> replace_first old new vc = vc"
proof (induction vc)
  case Nil
  then have "old \<noteq> []" by auto
  then show ?case by simp
next
  case (Cons c cs)
  have np: "\<not> prefix old (c # cs)"
  proof
    assume "prefix old (c # cs)"
    then obtain s where "c # cs = old @ s" by (auto simp: prefix_def)
    then have "c # cs = [] @ old @ s" by simp
    with Cons.prems show False by blast
  qed
  have "\<not> (\<exists>p s. cs = p @ old @ s)"
  proof
    assume "\<exists>p s. cs = p @ old @ s"
    then obtain p s where "cs = p @ old @ s" by blast
    then have "c # cs = (c # p) @ old @ s" by simp
    with Cons.prems show False by blast
  qed
  with Cons.IH np show ?case by simp
qed

lemma replace_first_leftmost:
  "vc = pre @ old @ post \<Longrightarrow> \<forall>p s. vc = p @ old @ s \<longrightarrow> length pre \<le> length p \<Longrightarrow>
   replace_first old new vc = pre @ new @ post"
proof (induction pre arbitrary: vc)
  case Nil
  show ?case
  proof (cases vc)
    case Nil
    with Nil.prems(1) show ?thesis by simp
  next
    case (Cons c cs)
    with Nil.prems(1) have e: "c # cs = old @ post" by simp
    then have "prefix old (c # cs)" by (simp add: prefix_def)
    moreover have "drop (length old) (c # cs) = post" unfolding e by simp
    ultimately show ?thesis using Cons by simp
  qed
next
  case (Cons a pre)
  from Cons.prems(1) obtain cs where vc: "vc = a # cs" and cs: "cs = pre @ old @ post" by simp
  have np: "\<not> prefix old vc"
  proof
    assume "prefix old vc"
    then obtain s where "vc = [] @ old @ s" by (auto simp: prefix_def)
    with Cons.prems(2) have "length (a # pre) \<le> length ([]::string)" by blast
    then show False by simp
  qed
  have "\<forall>p s. cs = p @ old @ s \<longrightarrow> length pre \<le> length p"
  proof (intro allI impI)
    fix p s assume "cs = p @ old @ s"
    then have "vc = (a # p) @ old @ s" using vc by simp
    with Cons.prems(2) have "length (a # pre) \<le> length (a # p)" by blast
    then show "length pre \<le> length p" by simp
  qed
  with Cons.IH [OF cs] have "replace_first old new cs = pre @ new @ post" by blast
  with np vc show ?case by simp
qed

text \<open>
  C10. For every input, \<open>RepeatAfterMe.run\<close> returns and speaks exactly one text: the input
  itself when the keyword does not occur in it, and otherwise the input with the leftmost
  occurrence of the keyword cut out, everything before and after it kept as it is.
\<close>

theorem RepeatAfterMe_run_first_occurrence:
  "fst (RepeatAfterMe_run keyword voice_command w) = Returned \<and>
   (\<exists>out. snd (RepeatAfterMe_run keyword voice_command w) = w\<lparr>said := said w @ [out]\<rparr> \<and>
      (\<not> (\<exists>pre post. voice_command = pre @ keyword @ post) \<longrightarrow> out = voice_command) \<and>
      (\<forall>pre post. voice_command = pre @ keyword @ post \<and>
         (\<forall>p s. voice_command = p @ keyword @ s \<longrightarrow> length pre \<le> length p) \<longrightarrow>
         out = pre @ post))"
proof -
  let ?out = "replace_first keyword [] voice_command"
  have a: "\<not> (\<exists>pre post. voice_command = pre @ keyword @ post) \<longrightarrow> ?out = voice_command"
    using replace_first_absent by blast
  have b: "\<forall>pre post. voice_command = pre @ keyword @ post \<and>
         (\<forall>p s. voice_command = p @ keyword @ s \<longrightarrow> length pre \<le> length p) \<longrightarrow>
         ?out = pre @ post"
    using replace_first_leftmost [where new = "[]"] by auto
  have c: "snd (RepeatAfterMe_run keyword voice_command w) = w\<lparr>said := said w @ [?out]\<rparr>"
    by (simp add: RepeatAfterMe_run_def say_def)
  have d: "fst (RepeatAfterMe_run keyword voice_command w) = Returned"
    by (simp add: RepeatAfterMe_run_def)
  from a b c d show ?thesis by blast
qed

theorem RepeatAfterMe_run_first_occurrence_witness:
  "said (snd (RepeatAfterMe_run ''ab'' ''xabyab'' start)) = [''xyab'']"
proof -
  from RepeatAfterMe_run_first_occurrence [of "''ab''" "''xabyab''" start]
  obtain out where o: "snd (RepeatAfterMe_run ''ab'' ''xabyab'' start) = start\<lparr>said := said start @ [out]\<rparr>"
    and f: "\<forall>pre post. ''xabyab'' = pre @ ''ab'' @ post \<and>
         (\<forall>p s. ''xabyab'' = p @ ''ab'' @ s \<longrightarrow> length pre \<le> length p) \<longrightarrow> out = pre @ post"
    by blast
  have m: "\<forall>p s. ''xabyab'' = p @ ''ab'' @ s \<longrightarrow> length ''x'' \<le> length p"
  proof (intro allI impI)
    fix p s assume "''xabyab'' = p @ ''ab'' @ s"
    then have "p \<noteq> []" by auto
    then show "length ''x'' \<le> length p" by (cases p) auto
  qed
  have "''xabyab'' = ''x'' @ ''ab'' @ ''yab''" by simp
  with f m have "out = ''x'' @ ''yab''" by blast
  with o show ?thesis by (simp add: start_def)
qed

text \<open>
  C9. A \<open>PowerCommand\<close> whose command is neither shutdown nor reboot speaks the one apology,
  logs one error, runs no shell command and returns.
\<close>

theorem PowerCommand_run_unidentified:
  assumes "command \<noteq> ''shutdown''" "command \<noteq> ''reboot''"
  shows "PowerCommand_run command sh voice_command w =
           (Returned, w\<lparr>said := said w @ [''Sorry I didn't identify that command''],
                        logged := logged w @ [(Error, ''Error identifying power command.'')]\<rparr>)
       \<and> shell_calls (snd (PowerCommand_run command sh voice_command w)) = shell_calls w"
  using assms by (simp add: PowerCommand_run_def say_def logging_def)

theorem PowerCommand_run_unidentified_witness:
  "PowerCommand_run ''restart'' (\<lambda>c. (0, [])) ''please restart'' start =
     (Returned, start\<lparr>said := [''Sorry I didn't identify that command''],
                      logged := [(Error, ''Error identifying power command.'')]\<rparr>)
   \<and> shell_calls (snd (PowerCommand_run ''restart'' (\<lambda>c. (0, [])) ''please restart'' start)) = []"
  using PowerCommand_run_unidentified [of "''restart''" "\<lambda>c. (0, [])" "''please restart''" start]
  by (simp add: start_def)

subsection \<open>The pause and resume hooks\<close>

text \<open>
  C7. With the playback state bound to any value, the pause hook calls the player's pause
  exactly when the state is playing (and the player is bound), the resume hook calls the
  player's play exactly when the state is playing (and the player is bound), and neither
  makes any other player call nor changes the state; so in the states paused and stopped no
  player call is made.
\<close>

theorem hooks_call_player_only_when_playing:
  assumes "podcastState w = Some state"
  shows "player_calls (snd (pause w)) =
           player_calls w @ (if state = ''playing'' \<and> podcastPlayer w then [Pause] else [])
       \<and> player_calls (snd (resume w)) =
           player_calls w @ (if state = ''playing'' \<and> podcastPlayer w then [Play] else [])
       \<and> podcastState (snd (pause w)) = Some state
       \<and> podcastState (snd (resume w)) = Some state
       \<and> player_calls (snd (pauseActors w)) = player_calls (snd (pause w))
       \<and> player_calls (snd (resumeActors w)) = player_calls (snd (resume w))"
  using assms
  by (simp add: pause_def resume_def pauseActors_def resumeActors_def get_state_def
      on_player_def player_def logging_def Let_def)

theorem hooks_call_player_only_when_playing_witness:
  "player_calls (snd (pause ((init start)\<lparr>podcastState := Some ''playing''\<rparr>))) = [Pause]
   \<and> player_calls (snd (resume ((init start)\<lparr>podcastState := Some ''playing''\<rparr>))) = [Play]
   \<and> player_calls (snd (pause ((init start)\<lparr>podcastState := Some ''paused''\<rparr>))) = []
   \<and> player_calls (snd (resume ((init start)\<lparr>podcastState := Some ''paused''\<rparr>))) = []
   \<and> player_calls (snd (pause (init start))) = []
   \<and> player_calls (snd (resume (init start))) = []"
  using hooks_call_player_only_when_playing
          [of "(init start)\<lparr>podcastState := Some ''playing''\<rparr>" "''playing''"]
        hooks_call_player_only_when_playing
          [of "(init start)\<lparr>podcastState := Some ''paused''\<rparr>" "''paused''"]
        hooks_call_player_only_when_playing [of "init start" "''stopped''"]
  by (simp add: init_def start_def set_state_def logging_def)

subsection \<open>The podcast controller\<close>

lemmas text_defs = command_of_def lower_def lower_char_def strip_def strip_by_def str_space_def
  bytes_space_def bytes_strip_def

lemmas world_defs = say_def logging_def player_def sleep_def set_state_def init_def start_def
  on_player_def

lemmas podcast_defs = playPodcast_run_def play_named_def start_playback_def stop_def get_url_def
  urls_def py_index_def playing_def randint_def Let_def

lemma play_named_unknown:
  assumes "get_url (if contains ''random'' cmd then strip (replace_first ''random'' [] cmd) else cmd)
             = Inl KeyError"
  shows "fst (play_named feed pick engine cmd w) = Returned"
    and "said (snd (play_named feed pick engine cmd w)) = said w @ [''Sorry podcast not found'']"
    and "podcastState (snd (play_named feed pick engine cmd w)) = Some ''stopped''"
    and "player_calls (snd (play_named feed pick engine cmd w)) = player_calls w"
  using assms
  by (simp_all add: play_named_def Let_def say_def set_state_def logging_def)

text \<open>
  C5. Whatever the world before the call (so whatever the playback state), when the command
  left after removing the keyword is none of stop, off, pause and resume, and the name it
  gives (after an optional "random" is removed) is not a key of the catalog, \<open>run\<close> returns,
  speaks exactly the one message "Sorry podcast not found", leaves the state stopped and
  makes no call on the player.
\<close>

theorem run_unknown_podcast:
  assumes "command_of keyword voice_command = cmd"
    and "cmd \<noteq> ''stop''" "cmd \<noteq> ''off''" "cmd \<noteq> ''pause''" "cmd \<noteq> ''resume''"
    and "map_of urls (if contains ''random'' cmd then strip (replace_first ''random'' [] cmd) else cmd)
           = None"
  shows "fst (playPodcast_run keyword feed pick engine voice_command w) = Returned
       \<and> said (snd (playPodcast_run keyword feed pick engine voice_command w)) =
           said w @ [''Sorry podcast not found'']
       \<and> podcastState (snd (playPodcast_run keyword feed pick engine voice_command w)) =
           Some ''stopped''
       \<and> player_calls (snd (playPodcast_run keyword feed pick engine voice_command w)) =
           player_calls w"
proof -
  let ?w1 = "logging Info (''podcast command:'' @ cmd) w"
  have r: "playPodcast_run keyword feed pick engine voice_command w =
             play_named feed pick engine cmd ?w1"
    using assms(1-5) by (simp add: playPodcast_run_def Let_def)
  have g: "get_url (if contains ''random'' cmd then strip (replace_first ''random'' [] cmd) else cmd)
             = Inl KeyError"
    using assms(6) by (simp add: get_url_def)
  have "said ?w1 = said w" "player_calls ?w1 = player_calls w"
    by (simp_all add: logging_def)
  with play_named_unknown [OF g, of feed pick engine ?w1] r show ?thesis by simp
qed

theorem run_unknown_podcast_witness:
  "fst (playPodcast_run ''podcast'' (\<lambda>u. []) 0 3 ''Podcast Unknownshow''
          ((init start)\<lparr>podcastState := Some ''playing''\<rparr>)) = Returned
   \<and> said (snd (playPodcast_run ''podcast'' (\<lambda>u. []) 0 3 ''Podcast Unknownshow''
          ((init start)\<lparr>podcastState := Some ''playing''\<rparr>))) = [''Sorry podcast not found'']
   \<and> podcastState (snd (playPodcast_run ''podcast'' (\<lambda>u. []) 0 3 ''Podcast Unknownshow''
          ((init start)\<lparr>podcastState := Some ''playing''\<rparr>))) = Some ''stopped''
   \<and> player_calls (snd (playPodcast_run ''podcast'' (\<lambda>u. []) 0 3 ''Podcast Unknownshow''
          ((init start)\<lparr>podcastState := Some ''playing''\<rparr>))) = []"
proof -
  have c: "command_of ''podcast'' ''Podcast Unknownshow'' = ''unknownshow''"
    by (simp add: text_defs)
  have u: "map_of urls (if contains ''random'' ''unknownshow''
                        then strip (replace_first ''random'' [] ''unknownshow'')
                        else ''unknownshow'') = None"
    by (simp add: urls_def)
  show ?thesis
    using run_unknown_podcast [OF c _ _ _ _ u, of "\<lambda>u. []" 0 3
        "(init start)\<lparr>podcastState := Some ''playing''\<rparr>"]
    by (simp add: world_defs)
qed

text \<open>What \<open>run\<close> does from \<open>media_new\<close> on, for every engine state code, when the player is
  bound: with a code among the playing ones it returns with the state playing and nothing
  spoken; with any other code the state is never stopped at the end.\<close>

lemma start_playback_engine_playing:
  assumes "podcastPlayer w" "engine \<in> playing"
  shows "fst (start_playback engine url w) = Returned"
    and "podcastState (snd (start_playback engine url w)) = Some ''playing''"
    and "said (snd (start_playback engine url w)) = said w"
  using assms by (simp_all add: start_playback_def world_defs Let_def)

lemma start_playback_engine_not_playing:
  assumes "podcastPlayer w" "engine \<notin> playing"
  shows "podcast w = None \<Longrightarrow> fst (start_playback engine url w) = Raised NameError"
    and "podcast w = None \<Longrightarrow> said (snd (start_playback engine url w)) = said w"
    and "podcast w = None \<Longrightarrow> podcastState (snd (start_playback engine url w)) = Some ''starting''"
    and "podcast w = Some name \<Longrightarrow> fst (start_playback engine url w) = Returned"
    and "podcast w = Some name \<Longrightarrow>
           said (snd (start_playback engine url w)) = said w @ [''Sorry error playing '' @ name]"
    and "podcast w = Some name \<Longrightarrow>
           podcastState (snd (start_playback engine url w)) = Some ''playing''"
  using assms by (simp_all add: start_playback_def world_defs Let_def)

text \<open>
  C1, the code at a failing run: the podcast twig is known, its newest episode has an mp3
  link, and the engine state code after the wait is 7, which is not a playing code.
  The message to speak is built from the global \<open>podcast\<close>, which the module never binds:
  \<open>run\<close> raises \<open>NameError\<close>, nothing is spoken and the state stays starting. Were
  \<open>podcast\<close> bound, the message would be spoken and the state set to stopped, and then
  set to playing by the last statement of \<open>run\<close>.
\<close>

theorem run_engine_failure:
  "fst (playPodcast_run ''podcast'' (\<lambda>u. [[''http://example.com/episode1.mp3'']]) 0 7
          ''podcast twig'' (init start)) = Raised NameError
   \<and> said (snd (playPodcast_run ''podcast'' (\<lambda>u. [[''http://example.com/episode1.mp3'']]) 0 7
          ''podcast twig'' (init start))) = []
   \<and> podcastState (snd (playPodcast_run ''podcast'' (\<lambda>u. [[''http://example.com/episode1.mp3'']]) 0 7
          ''podcast twig'' (init start))) = Some ''starting''
   \<and> fst (playPodcast_run ''podcast'' (\<lambda>u. [[''http://example.com/episode1.mp3'']]) 0 7
          ''podcast twig'' ((init start)\<lparr>podcast := Some ''twig''\<rparr>)) = Returned
   \<and> said (snd (playPodcast_run ''podcast'' (\<lambda>u. [[''http://example.com/episode1.mp3'']]) 0 7
          ''podcast twig'' ((init start)\<lparr>podcast := Some ''twig''\<rparr>))) = [''Sorry error playing twig'']
   \<and> podcastState (snd (playPodcast_run ''podcast'' (\<lambda>u. [[''http://example.com/episode1.mp3'']]) 0 7
          ''podcast twig'' ((init start)\<lparr>podcast := Some ''twig''\<rparr>))) = Some ''playing''"
  by (simp add: text_defs world_defs podcast_defs)

text \<open>
  C3, the code at two failing runs of the known podcast twig. With an empty feed the
  subscript \<open>feed.entries[0]\<close> raises \<open>IndexError\<close>; with an episode whose only link has
  no \<open>.mp3\<close> the global \<open>podcast_url\<close> is still \<open>None\<close> when it is appended to the log
  message, which raises \<open>TypeError\<close>. In both runs nothing is spoken and the exception
  leaves \<open>run\<close>.
\<close>

theorem run_no_playable_link:
  "fst (playPodcast_run ''podcast'' (\<lambda>u. []) 0 3 ''podcast twig'' (init start)) = Raised IndexError
   \<and> said (snd (playPodcast_run ''podcast'' (\<lambda>u. []) 0 3 ''podcast twig'' (init start))) = []
   \<and> fst (playPodcast_run ''podcast'' (\<lambda>u. [[''http://example.com/episode1.html'']]) 0 3
          ''podcast twig'' (init start)) = Raised TypeError
   \<and> said (snd (playPodcast_run ''podcast'' (\<lambda>u. [[''http://example.com/episode1.html'']]) 0 3
          ''podcast twig'' (init start))) = []"
  by (simp add: text_defs world_defs podcast_defs)

text \<open>The upper bound of \<open>random.randint(0, number_of_podcasts)\<close> is a possible pick
  and is no index of the feed.\<close>

lemma randint_upper_bound_is_no_index:
  "int (length entries) \<in> randint 0 (int (length entries))"
  "py_index entries (int (length entries)) = Inl IndexError"
  by (simp_all add: randint_def py_index_def)

text \<open>
  C4, the code at a failing run in random mode: the feed has one entry, so the pick is
  drawn from \<open>randint 0 1\<close>; the pick 1 is possible and the subscript
  \<open>feed.entries[1]\<close> raises \<open>IndexError\<close>, before any call on the player.
\<close>

theorem run_random_index_past_end:
  "1 \<in> randint 0 (int (length [[''http://example.com/episode1.mp3'']]))
   \<and> fst (playPodcast_run ''podcast'' (\<lambda>u. [[''http://example.com/episode1.mp3'']]) 1 3
          ''podcast random twig'' (init start)) = Raised IndexError
   \<and> player_calls (snd (playPodcast_run ''podcast'' (\<lambda>u. [[''http://example.com/episode1.mp3'']]) 1 3
          ''podcast random twig'' (init start))) = []"
  by (simp add: text_defs world_defs podcast_defs)

subsection \<open>The volume\<close>

text \<open>What \<open>VolumeControl.run\<close> does for every shell: an exit status other than 0 of the
  query leaves \<open>run\<close> as \<open>CalledProcessError\<close>; an output that is no integer is logged
  and nothing is spoken; otherwise the new volume is spoken whatever the exit status of the
  set command.\<close>

lemma VolumeControl_run_query_fails:
  assumes "fst (sh GET_VOLUME) \<noteq> 0"
  shows "fst (VolumeControl_run change sh voice_command w) = Raised CalledProcessError"
    and "logged (snd (VolumeControl_run change sh voice_command w)) = logged w"
  using assms by (simp_all add: VolumeControl_run_def check_output_def Let_def)

lemma VolumeControl_run_parse_fails:
  assumes "fst (sh GET_VOLUME) = 0" "py_int (bytes_strip (snd (sh GET_VOLUME))) = None"
  shows "fst (VolumeControl_run change sh voice_command w) = Returned"
    and "said (snd (VolumeControl_run change sh voice_command w)) = said w"
    and "logged (snd (VolumeControl_run change sh voice_command w)) =
           logged w @ [(Info, ''volume: '' @ bytes_repr (bytes_strip (snd (sh GET_VOLUME)))),
                       (Exception, ''Error using amixer to adjust volume.'')]"
  using assms by (simp_all add: VolumeControl_run_def check_output_def logging_def Let_def)

lemma VolumeControl_run_parsed:
  assumes "fst (sh GET_VOLUME) = 0" "py_int (bytes_strip (snd (sh GET_VOLUME))) = Some v"
  shows "fst (VolumeControl_run change sh voice_command w) = Returned"
    and "said (snd (VolumeControl_run change sh voice_command w)) =
           said w @ [''Volume at '' @ str_int (max 0 (min 100 (v + change))) @ '' %.'']"
    and "logged (snd (VolumeControl_run change sh voice_command w)) =
           logged w @ [(Info, ''volume: '' @ bytes_repr (bytes_strip (snd (sh GET_VOLUME))))]"
  using assms
  by (simp_all add: VolumeControl_run_def check_output_def call_def logging_def say_def Let_def)

text \<open>
  C6, the code at two failing runs of "volume up". When the query exits with status 1,
  \<open>check_output\<close> raises \<open>CalledProcessError\<close> before the \<open>try\<close> is entered: the exception
  leaves \<open>run\<close> and nothing is logged. When the query prints 50 and the set command exits
  with status 1, \<open>subprocess.call\<close> returns that status, which is dropped: "Volume at 60 %."
  is spoken and no error is logged.
\<close>

theorem VolumeControl_run_command_failure:
  "fst (VolumeControl_run 10 (\<lambda>cmd. if cmd = GET_VOLUME then (1, []) else (0, []))
          ''volume up'' start) = Raised CalledProcessError
   \<and> logged (snd (VolumeControl_run 10 (\<lambda>cmd. if cmd = GET_VOLUME then (1, []) else (0, []))
          ''volume up'' start)) = []
   \<and> fst (VolumeControl_run 10 (\<lambda>cmd. if cmd = GET_VOLUME then (0, ''50'' @ [CHR 0x0A]) else (1, []))
          ''volume up'' start) = Returned
   \<and> said (snd (VolumeControl_run 10 (\<lambda>cmd. if cmd = GET_VOLUME then (0, ''50'' @ [CHR 0x0A]) else (1, []))
          ''volume up'' start)) = [''Volume at 60 %.'']
   \<and> logged (snd (VolumeControl_run 10 (\<lambda>cmd. if cmd = GET_VOLUME then (0, ''50'' @ [CHR 0x0A]) else (1, []))
          ''volume up'' start)) = [(Info, ''volume: b'' @ [CHR 0x27] @ ''50'' @ [CHR 0x27])]"
  by (simp add: VolumeControl_run_def check_output_def call_def GET_VOLUME_def SET_VOLUME_def
      py_int_def digit_val_def str_int_def bytes_repr_def bytes_quote_def repr_byte_def
      text_defs world_defs Let_def)

end
